theory Spec2Isabelle
  imports Complex_Main "HOL-Library.Sublist" "HOL-Library.Multiset"
begin
section \<open>Page text and substring tests\<close>

text \<open>
  The detectors of \<^verbatim>\<open>forms/form_k1/extractor.py\<close>, \<^verbatim>\<open>forms/form_k3/extractor.py\<close>
  and \<^verbatim>\<open>forms/form_8805/extractor.py\<close> read the text layer of every page and test it
  with Python's \<^verbatim>\<open>needle in text\<close>. A document that opened successfully is modelled
  as the list of its page texts (index 0 is page 1).
\<close>

fun str_in :: "string \<Rightarrow> string \<Rightarrow> bool" where
  "str_in p [] = (p = [])"
| "str_in p (c # cs) = (prefix p (c # cs) \<or> str_in p cs)"

section \<open>Grouping detected pages into ranges\<close>

text \<open>
  The second pass of \<^verbatim>\<open>detect_k3_page_ranges\<close> and \<^verbatim>\<open>detect_8805_page_ranges\<close>:
  \<^verbatim>\<open>start = end = pages[0]\<close>, then for every later page either \<^verbatim>\<open>end = page\<close>
  (when \<^verbatim>\<open>page == end + 1\<close>) or the current range is saved and a new one started;
  the last range is saved after the loop. The accumulator is the list \<^verbatim>\<open>ranges\<close>.
\<close>

fun group_loop :: "nat \<Rightarrow> nat \<Rightarrow> nat list \<Rightarrow> (nat \<times> nat) list \<Rightarrow> (nat \<times> nat) list" where
  "group_loop start end [] ranges = ranges @ [(start, end)]"
| "group_loop start end (page # pages) ranges =
     (if page = end + 1 then group_loop start page pages ranges
      else group_loop page page pages (ranges @ [(start, end)]))"

definition group_ranges :: "nat list \<Rightarrow> (nat \<times> nat) list" where
  "group_ranges pages = (case pages of [] \<Rightarrow> [] | p # ps \<Rightarrow> group_loop p p ps [])"

text \<open>The pages a range stands for, as \<^verbatim>\<open>range(start, end + 1)\<close> in the legacy
  \<^verbatim>\<open>detect_k3_pages\<close> and \<^verbatim>\<open>detect_8805_pages\<close>.\<close>

definition range_pages :: "nat \<times> nat \<Rightarrow> nat list" where
  "range_pages r = [fst r ..< snd r + 1]"

definition pages_of_ranges :: "(nat \<times> nat) list \<Rightarrow> nat list" where
  "pages_of_ranges rs = concat (map range_pages rs)"

text \<open>Two neighbouring ranges are separated by a gap: the later one starts after the page
  that would have extended the earlier one.\<close>

definition gap_before :: "nat \<times> nat \<Rightarrow> nat \<times> nat \<Rightarrow> bool" where
  "gap_before r1 r2 = (snd r1 + 1 < fst r2)"

section \<open>Page classification and scanning\<close>

text \<open>
  \<^verbatim>\<open>max_page_to_scan = int(total_pages * max_scan_percentage / 100)\<close>. The percentage
  is a float in the source (85.0 for K-1, 100.0 for K-3 and 8805). For a whole-number
  percentage the product is an exact double, the quotient is the correctly rounded value of a
  multiple of 1/100, and truncation by \<^verbatim>\<open>int\<close> therefore gives the integer quotient
  written here (for every page count a document can have).
\<close>

definition max_page_to_scan :: "nat \<Rightarrow> nat \<Rightarrow> nat" where
  "max_page_to_scan total_pages max_scan_percentage = total_pages * max_scan_percentage div 100"

text \<open>The page test of \<^verbatim>\<open>MultiPageK1Processor.detect_k1_pages\<close>.\<close>

definition is_k1_page :: "string \<Rightarrow> bool" where
  "is_k1_page text =
     (let has_schedule_k1 = str_in ''Schedule K-1'' text;
          has_form_1065 = str_in ''(Form 1065)'' text;
          has_k1_header = (has_schedule_k1 \<and> has_form_1065);
          has_part_i = (str_in ''Part I'' text \<and> str_in ''Information About the Partnership'' text)
      in has_k1_header \<and> has_part_i)"

text \<open>The page test of \<^verbatim>\<open>MultiPageK3Processor.detect_k3_page_ranges\<close>.\<close>

definition is_k3_page :: "string \<Rightarrow> bool" where
  "is_k3_page text =
     (let has_k3 = str_in ''Schedule K-3'' text;
          has_k1 = str_in ''Schedule K-1'' text
      in has_k3 \<and> \<not> has_k1)"

text \<open>The page test of \<^verbatim>\<open>MultiPage8805Processor.detect_8805_page_ranges\<close>;
  \<open>is_any_8804\<close> is the source's variable of that name, the three Form 8804 patterns the
  detector excludes.\<close>

definition is_any_8804 :: "string \<Rightarrow> bool" where
  "is_any_8804 text =
     (let is_k1_8804 = (str_in ''Schedule K-1'' text \<and> str_in ''(Form 8804)'' text);
          is_main_8804 = (str_in ''Form 8804'' text
                          \<and> str_in ''Annual Return for Partnership Withholding Tax'' text)
      in is_k1_8804 \<or> is_main_8804 \<or> (str_in ''Form 8804'' text \<and> str_in ''Schedule K-1'' text))"

definition has_8805_signature :: "string \<Rightarrow> bool" where
  "has_8805_signature text =
     (let has_form_8805 = str_in ''Form 8805'' text;
          has_title = str_in ''Foreign Partner's Information Statement'' text;
          has_copy = ((str_in ''Copy A'' text \<or> str_in ''Copy B'' text
                       \<or> str_in ''Copy C'' text \<or> str_in ''Copy D'' text)
                      \<and> str_in ''8805'' text);
          has_section_1446 = (str_in ''Section 1446'' text \<and> str_in ''Form 8805'' text)
      in has_form_8805 \<or> has_title \<or> has_section_1446 \<or> has_copy)"

definition is_8805_page :: "string \<Rightarrow> bool" where
  "is_8805_page text =
     (let is_k1 = (str_in ''Schedule K-1'' text \<and> str_in ''(Form 1065)'' text);
          is_k3 = str_in ''Schedule K-3'' text
      in has_8805_signature text \<and> \<not> is_any_8804 text \<and> \<not> is_k1 \<and> \<not> is_k3)"

text \<open>
  The first pass, \<^verbatim>\<open>for page_num in range(max_page_to_scan)\<close>: \<^verbatim>\<open>doc[page_num]\<close>
  raises IndexError beyond the last page, so the loop returns \<open>None\<close> there (the
  detectors catch every exception and return the empty list). A page that passes the test is
  recorded 1-indexed.
\<close>

fun scan_loop :: "(string \<Rightarrow> bool) \<Rightarrow> string list \<Rightarrow> nat list \<Rightarrow> nat list \<Rightarrow> nat list option" where
  "scan_loop is_page doc [] found = Some found"
| "scan_loop is_page doc (page_num # rest) found =
     (if page_num < length doc
      then (if is_page (doc ! page_num)
            then scan_loop is_page doc rest (found @ [page_num + 1])
            else scan_loop is_page doc rest found)
      else None)"

text \<open>
  The K-1 loop also stops early: \<^verbatim>\<open>if max_k1_pages and len(k1_pages) >= max_k1_pages: break\<close>.
  \<^verbatim>\<open>max_k1_pages\<close> is \<open>None\<close> by default, and 0 is falsy like \<open>None\<close>.
\<close>

fun k1_scan_loop :: "string list \<Rightarrow> nat option \<Rightarrow> nat list \<Rightarrow> nat list \<Rightarrow> nat list option" where
  "k1_scan_loop doc max_k1_pages [] k1_pages = Some k1_pages"
| "k1_scan_loop doc max_k1_pages (page_num # rest) k1_pages =
     (if page_num < length doc
      then (if is_k1_page (doc ! page_num)
            then (let k1_pages' = k1_pages @ [page_num + 1]
                  in (case max_k1_pages of
                        None \<Rightarrow> k1_scan_loop doc max_k1_pages rest k1_pages'
                      | Some m \<Rightarrow> if m \<noteq> 0 \<and> length k1_pages' \<ge> m then Some k1_pages'
                                  else k1_scan_loop doc max_k1_pages rest k1_pages'))
            else k1_scan_loop doc max_k1_pages rest k1_pages)
      else None)"

definition detect_k1_pages :: "string list \<Rightarrow> nat \<Rightarrow> nat option \<Rightarrow> nat list" where
  "detect_k1_pages doc max_scan_percentage max_k1_pages =
     (case k1_scan_loop doc max_k1_pages
             [0 ..< max_page_to_scan (length doc) max_scan_percentage] [] of
        None \<Rightarrow> []
      | Some k1_pages \<Rightarrow> k1_pages)"

definition detect_k3_page_ranges :: "string list \<Rightarrow> nat \<Rightarrow> (nat \<times> nat) list" where
  "detect_k3_page_ranges doc max_scan_percentage =
     (case scan_loop is_k3_page doc [0 ..< max_page_to_scan (length doc) max_scan_percentage] [] of
        None \<Rightarrow> []
      | Some k3_pages \<Rightarrow> group_ranges k3_pages)"

definition detect_8805_page_ranges :: "string list \<Rightarrow> nat \<Rightarrow> (nat \<times> nat) list" where
  "detect_8805_page_ranges doc max_scan_percentage =
     (case scan_loop is_8805_page doc [0 ..< max_page_to_scan (length doc) max_scan_percentage] [] of
        None \<Rightarrow> []
      | Some form_8805_pages \<Rightarrow> group_ranges form_8805_pages)"

text \<open>The default arguments: \<^verbatim>\<open>max_scan_percentage=85.0, max_k1_pages=None\<close> for K-1,
  \<^verbatim>\<open>max_scan_percentage=100.0\<close> for K-3 and 8805.\<close>

definition detect_k1_pages_default :: "string list \<Rightarrow> nat list" where
  "detect_k1_pages_default doc = detect_k1_pages doc 85 None"

definition detect_k3_page_ranges_default :: "string list \<Rightarrow> (nat \<times> nat) list" where
  "detect_k3_page_ranges_default doc = detect_k3_page_ranges doc 100"

definition detect_8805_page_ranges_default :: "string list \<Rightarrow> (nat \<times> nat) list" where
  "detect_8805_page_ranges_default doc = detect_8805_page_ranges doc 100"

text \<open>The legacy \<^verbatim>\<open>detect_k3_pages\<close> and \<^verbatim>\<open>detect_8805_pages\<close>: the pages of all ranges.\<close>

definition detect_k3_pages :: "string list \<Rightarrow> nat \<Rightarrow> nat list" where
  "detect_k3_pages doc max_scan_percentage = pages_of_ranges (detect_k3_page_ranges doc max_scan_percentage)"

definition detect_8805_pages :: "string list \<Rightarrow> nat \<Rightarrow> nat list" where
  "detect_8805_pages doc max_scan_percentage = pages_of_ranges (detect_8805_page_ranges doc max_scan_percentage)"

text \<open>Page texts used to run the detectors on concrete documents.\<close>

definition k1_start_text :: string where
  "k1_start_text = ''Schedule K-1 (Form 1065) Part I Information About the Partnership''"

definition k3_text :: string where
  "k3_text = ''Schedule K-3 (Form 1065) Part II Foreign Tax Credit Limitation''"

definition copy_a_8805_text :: string where
  "copy_a_8805_text = ''Form 8805 Foreign Partner's Information Statement Copy A''"

definition attach_8805_text :: string where
  "attach_8805_text = ''Form 8805 Copy A Attach to Form 8804''"

section \<open>Retry loops of the API (\<^verbatim>\<open>api.py\<close>)\<close>












section \<open>The Groq call of the form extractors\<close>




section \<open>Batching of \<^verbatim>\<open>extract_form\<close> (\<^verbatim>\<open>api.py\<close>)\<close>

record page_input =
  page_url :: string
  page_number :: int
  detected_type :: string

text \<open>\<^verbatim>\<open>pages_by_type\<close> is a dict filled in request order; a Python dict keeps the
  order in which its keys were first inserted, so it is an association list here.\<close>

fun dict_append :: "string \<Rightarrow> 'a \<Rightarrow> (string \<times> 'a list) list \<Rightarrow> (string \<times> 'a list) list" where
  "dict_append k v [] = [(k, [v])]"
| "dict_append k v ((k', vs) # rest) =
     (if k = k' then (k', vs @ [v]) # rest else (k', vs) # dict_append k v rest)"

definition pages_by_type :: "page_input list \<Rightarrow> (string \<times> page_input list) list" where
  "pages_by_type request_pages = foldl (\<lambda>d page. dict_append (detected_type page) page d) [] request_pages"

definition MAX_PAGES_PER_BATCH :: nat where
  "MAX_PAGES_PER_BATCH = 10"

text \<open>\<^verbatim>\<open>for chunk_idx in range(0, len(pages), MAX_PAGES_PER_BATCH):
    chunk = pages[chunk_idx:chunk_idx + MAX_PAGES_PER_BATCH]\<close>\<close>

definition chunk_starts :: "nat \<Rightarrow> nat list" where
  "chunk_starts n = map (\<lambda>k. k * MAX_PAGES_PER_BATCH)
                        [0 ..< (n + MAX_PAGES_PER_BATCH - 1) div MAX_PAGES_PER_BATCH]"

definition chunk_pages :: "'a list \<Rightarrow> 'a list list" where
  "chunk_pages pages =
     map (\<lambda>chunk_idx. take MAX_PAGES_PER_BATCH (drop chunk_idx pages)) (chunk_starts (length pages))"

text \<open>
  The backend calls one request plans, in order: for every form type of the request, no
  call when \<^verbatim>\<open>load_prompt_for_form\<close> knows no prompt for it (its pages are answered
  with an "Unsupported form type" entry), else one call per chunk, whose contents are one
  image per page of the chunk and the prompt. The registry of prompts is a file outside the
  sources, so \<open>supported\<close> is a parameter.
\<close>

definition backend_calls :: "(string \<Rightarrow> bool) \<Rightarrow> page_input list \<Rightarrow> page_input list list" where
  "backend_calls supported request_pages =
     concat (map (\<lambda>(form_type, pages). if supported form_type then chunk_pages pages else [])
                 (pages_by_type request_pages))"

definition example_page :: "int \<Rightarrow> page_input" where
  "example_page n = \<lparr>page_url = ''u'', page_number = n, detected_type = ''W-2''\<rparr>"

section \<open>Decoded model output\<close>

text \<open>
  The vision backends answer with JSON; \<^verbatim>\<open>json.loads\<close> turns it into Python values. A
  number is kept as the exact rational its decimal text denotes (Python rounds it to a
  double), \<open>int\<close> and \<open>float\<close> are one constructor, and the non-finite floats are left
  out. A dict is an association list in insertion order; its keys are strings.
\<close>

datatype json =
    JNull
  | JBool bool
  | JNum rat
  | JStr string
  | JArr "json list"
  | JObj "(string \<times> json) list"

text \<open>\<^verbatim>\<open>d.get(key)\<close> on a decoded object, \<open>None\<close> when the key is absent.\<close>

definition dict_get :: "(string \<times> json) list \<Rightarrow> string \<Rightarrow> json option" where
  "dict_get d key = map_of d key"

text \<open>\<^verbatim>\<open>d[key] = v\<close>: an existing key keeps its place, a new key goes to the end.\<close>

fun dict_set :: "string \<Rightarrow> json \<Rightarrow> (string \<times> json) list \<Rightarrow> (string \<times> json) list" where
  "dict_set k v [] = [(k, v)]"
| "dict_set k v ((k', v') # rest) =
     (if k = k' then (k, v) # rest else (k', v') # dict_set k v rest)"

text \<open>\<^verbatim>\<open>dict(items)\<close>.\<close>

definition dict_of_items :: "(string \<times> json) list \<Rightarrow> (string \<times> json) list" where
  "dict_of_items items = foldl (\<lambda>d kv. dict_set (fst kv) (snd kv) d) [] items"

text \<open>
  Python compares \<open>bool\<close>, \<open>int\<close> and \<open>float\<close> by value (\<^verbatim>\<open>False == 0\<close>,
  \<^verbatim>\<open>True == 1.0\<close>); a number never equals a string, \<open>None\<close>, a list or a dict.
  \<open>py_eq\<close> is used with a scalar on one side at least.
\<close>

fun num_value :: "json \<Rightarrow> rat option" where
  "num_value (JBool b) = Some (if b then 1 else 0)"
| "num_value (JNum r) = Some r"
| "num_value _ = None"

definition py_eq :: "json \<Rightarrow> json \<Rightarrow> bool" where
  "py_eq a b = (case (num_value a, num_value b) of
                  (Some x, Some y) \<Rightarrow> x = y
                | (None, None) \<Rightarrow> a = b
                | _ \<Rightarrow> False)"

text \<open>The decimal text of an index, as an f-string writes it.\<close>

fun digit_char :: "nat \<Rightarrow> char" where
  "digit_char n = char_of (48 + n)"

fun str_of_nat :: "nat \<Rightarrow> string" where
  "str_of_nat n = (if n < 10 then [digit_char n] else str_of_nat (n div 10) @ [digit_char (n mod 10)])"

section \<open>String cleaning and \<^verbatim>\<open>float\<close>\<close>

definition is_space :: "char \<Rightarrow> bool" where
  "is_space c = (c \<in> set [CHR '' '', CHR 0x09, CHR 0x0A, CHR 0x0B, CHR 0x0C, CHR 0x0D])"

text \<open>\<^verbatim>\<open>s.strip()\<close> and \<^verbatim>\<open>s.replace(c, "")\<close> for a character \<open>c\<close>.\<close>

definition strip :: "string \<Rightarrow> string" where
  "strip s = rev (dropWhile is_space (rev (dropWhile is_space s)))"

definition remove_char :: "char \<Rightarrow> string \<Rightarrow> string" where
  "remove_char c s = filter (\<lambda>x. x \<noteq> c) s"

definition replace_char :: "char \<Rightarrow> char \<Rightarrow> string \<Rightarrow> string" where
  "replace_char c c' s = map (\<lambda>x. if x = c then c' else x) s"












section \<open>Normalisation of W-2 and K-1 output (\<^verbatim>\<open>app.py\<close>)\<close>

text \<open>
  \<^verbatim>\<open>flatten_dict(d, parent_key='', sep='_')\<close>: nested objects are flattened into keys
  joined by \<open>_\<close>; the elements of a list get the key with their index; an element of a
  list that is itself a list is kept as a value. The three functions are the function on an
  object, the loop over its items and the loop over a list value.
\<close>

fun flatten_dict :: "json \<Rightarrow> string \<Rightarrow> (string \<times> json) list"
and flatten_items :: "(string \<times> json) list \<Rightarrow> string \<Rightarrow> (string \<times> json) list"
and flatten_list :: "json list \<Rightarrow> string \<Rightarrow> nat \<Rightarrow> (string \<times> json) list" where
  "flatten_dict (JObj kvs) parent_key = dict_of_items (flatten_items kvs parent_key)"
| "flatten_dict JNull parent_key = dict_of_items []"
| "flatten_dict (JBool b) parent_key = dict_of_items []"
| "flatten_dict (JNum r) parent_key = dict_of_items []"
| "flatten_dict (JStr s) parent_key = dict_of_items []"
| "flatten_dict (JArr xs) parent_key = dict_of_items []"
| "flatten_items [] parent_key = []"
| "flatten_items ((k, v) # rest) parent_key =
     (let new_key = (if parent_key \<noteq> [] then parent_key @ ''_'' @ k else k)
      in (case v of
            JObj kvs \<Rightarrow> flatten_dict (JObj kvs) new_key
          | JArr xs \<Rightarrow> flatten_list xs new_key 0
          | _ \<Rightarrow> [(new_key, v)])
         @ flatten_items rest parent_key)"
| "flatten_list [] new_key i = []"
| "flatten_list (item # rest) new_key i =
     (case item of
        JObj kvs \<Rightarrow> flatten_dict (JObj kvs) (new_key @ ''_'' @ str_of_nat i)
      | _ \<Rightarrow> [(new_key @ ''_'' @ str_of_nat i, item)])
     @ flatten_list rest new_key (i + 1)"



text \<open>
  W-2 \<^verbatim>\<open>find_number(keys, default=0.00)\<close> is \<^verbatim>\<open>find_value\<close> followed by a
  conversion, \<open>w2_number\<close> here: \<open>None\<close> gives 0.00, an \<open>int\<close> or \<open>float\<close>
  (\<open>bool\<close> is an \<open>int\<close>) goes through \<^verbatim>\<open>float\<close>, a string has \<open>$\<close> and commas
  removed and is stripped before \<^verbatim>\<open>float\<close>, and a string \<^verbatim>\<open>float\<close> rejects, like
  any other value, gives 0.00.
\<close>

definition w2_clean_text :: "string \<Rightarrow> string" where
  "w2_clean_text s = strip (remove_char (CHR '','') (remove_char (CHR ''$'') s))"






fun py_truthy :: "json \<Rightarrow> bool" where
  "py_truthy JNull = False"
| "py_truthy (JBool b) = b"
| "py_truthy (JNum r) = (r \<noteq> 0)"
| "py_truthy (JStr s) = (s \<noteq> [])"
| "py_truthy (JArr xs) = (xs \<noteq> [])"
| "py_truthy (JObj kvs) = (kvs \<noteq> [])"



text \<open>One \<^verbatim>\<open>{"code": ..., "label": ..., "value": ...}\<close> object; an absent key reads as
  \<open>None\<close> through \<^verbatim>\<open>d.get\<close>.\<close>

record data_entry =
  code :: json
  label :: json
  "value" :: json



















text \<open>
  K-1 \<^verbatim>\<open>clean_number(val, default=0.00)\<close> and \<^verbatim>\<open>clean_bool(val)\<close> of
  \<^verbatim>\<open>transform_to_k1_structure\<close>, and the \<^verbatim>\<open>find_number(keys, default=0.00)\<close> of its
  fallback path: \<open>$\<close> and commas are removed, \<open>(\<close> becomes \<open>-\<close> and \<open>)\<close> is removed.
\<close>

definition k1_clean_text :: "string \<Rightarrow> string" where
  "k1_clean_text s =
     strip (remove_char (CHR '')'') (replace_char (CHR ''('') (CHR ''-'')
              (remove_char (CHR '','') (remove_char (CHR ''$'') s))))"




section \<open>Consolidation of K-3 pages (\<^verbatim>\<open>MultiPageK3Processor.batch_extract\<close>)\<close>

text \<open>
  A decoded page result is taken in the shape the K-3 prompt asks for: an object with
  optional keys, whose part lists are lists of items, each item an object that may hold a
  \<open>data\<close> list of \<^verbatim>\<open>{"code", "label", "value"}\<close> objects (\<open>data_entry\<close>; an absent key
  reads as \<open>None\<close>). An item is its \<open>data\<close> list, \<open>None\<close> when it has none. Codes
  and values are arbitrary decoded values. A result of any other shape (an item that is not
  an object, say) raises inside the \<^verbatim>\<open>try\<close> block of its page, which abandons the page
  at that point; apart from a code that cannot be hashed, those shapes are outside the types
  used here.
\<close>

type_synonym part_item = "data_entry list option"

text \<open>A list or a dict cannot be put into a Python set: \<^verbatim>\<open>existing_codes.add\<close> and
  \<^verbatim>\<open>not in existing_codes\<close> raise TypeError for them.\<close>

fun hashable :: "json \<Rightarrow> bool" where
  "hashable (JArr xs) = False"
| "hashable (JObj kvs) = False"
| "hashable v = True"

text \<open>\<^verbatim>\<open>val is not None and val != 0 and val != 0.00 and val != ""\<close>\<close>

definition value_is_set :: "json \<Rightarrow> bool" where
  "value_is_set val =
     (val \<noteq> JNull \<and> \<not> py_eq val (JNum 0) \<and> \<not> py_eq val (JNum 0) \<and> \<not> py_eq val (JStr ''''))"

text \<open>\<^verbatim>\<open>ed.get("value") in [None, 0, 0.00, ""]\<close>\<close>

definition value_is_empty :: "json \<Rightarrow> bool" where
  "value_is_empty v = (\<exists>x \<in> set [JNull, JNum 0, JNum 0, JStr '''']. py_eq v x)"

text \<open>The set \<^verbatim>\<open>existing_codes\<close> is the list of the codes added to it; membership is
  by Python equality.\<close>

definition code_in :: "json \<Rightarrow> json list \<Rightarrow> bool" where
  "code_in c codes = (\<exists>x \<in> set codes. py_eq x c)"

text \<open>
  \<^verbatim>\<open>existing_codes = set()\<close>, then the code of every data entry of every item collected
  so far is added; \<open>None\<close> when a code cannot be hashed (nothing has been changed then).
\<close>

fun existing_codes_of :: "part_item list \<Rightarrow> json list option" where
  "existing_codes_of [] = Some []"
| "existing_codes_of (item # rest) =
     (case item of
        None \<Rightarrow> existing_codes_of rest
      | Some ds \<Rightarrow>
          if \<forall>d \<in> set ds. hashable (code d)
          then map_option (\<lambda>codes. map code ds @ codes) (existing_codes_of rest)
          else None)"

text \<open>The innermost loops: every collected entry with the same code whose value is empty
  takes the new value.\<close>

definition update_entry :: "json \<Rightarrow> json \<Rightarrow> data_entry \<Rightarrow> data_entry" where
  "update_entry c val ed =
     (if py_eq (code ed) c \<and> value_is_empty (value ed) then ed\<lparr>value := val\<rparr> else ed)"

definition update_items :: "json \<Rightarrow> json \<Rightarrow> part_item list \<Rightarrow> part_item list" where
  "update_items c val collected = map (map_option (map (update_entry c val))) collected"

text \<open>
  \<^verbatim>\<open>for item in part_items\<close>: both branches of the loop over \<^verbatim>\<open>item["data"]\<close> end
  with \<^verbatim>\<open>break\<close>, so only the first data entry of an item is looked at. An item whose
  first code is new is appended whole; otherwise a value that is set fills the empty values
  collected for that code. The result says whether an exception ended the loop.
\<close>

fun merge_part_items ::
    "part_item list \<Rightarrow> part_item list \<Rightarrow> json list \<Rightarrow> part_item list \<times> bool" where
  "merge_part_items [] collected existing_codes = (collected, False)"
| "merge_part_items (item # rest) collected existing_codes =
     (case item of
        None \<Rightarrow> merge_part_items rest collected existing_codes
      | Some [] \<Rightarrow> merge_part_items rest collected existing_codes
      | Some (d # ds) \<Rightarrow>
          if \<not> hashable (code d) then (collected, True)
          else if \<not> code_in (code d) existing_codes
          then merge_part_items rest (collected @ [item]) (existing_codes @ [code d])
          else (let val = value d
                in merge_part_items rest
                     (if value_is_set val then update_items (code d) val collected else collected)
                     existing_codes))"

text \<open>One part key of one page: \<^verbatim>\<open>if part_key in page_data\<close>, \<^verbatim>\<open>if part_items\<close>.\<close>

definition merge_part :: "part_item list \<Rightarrow> part_item list option \<Rightarrow> part_item list \<times> bool" where
  "merge_part collected page_part =
     (case page_part of
        None \<Rightarrow> (collected, False)
      | Some part_items \<Rightarrow>
          if part_items = [] then (collected, False)
          else (case existing_codes_of collected of
                  None \<Rightarrow> (collected, True)
                | Some existing_codes \<Rightarrow> merge_part_items part_items collected existing_codes))"

text \<open>\<^verbatim>\<open>for part_key in all_part_data.keys()\<close>, in the order of the dict; an exception
  leaves the later keys untouched.\<close>

fun merge_parts :: "(string \<times> part_item list) list \<Rightarrow> (string \<rightharpoonup> part_item list)
                      \<Rightarrow> (string \<times> part_item list) list \<times> bool" where
  "merge_parts [] page_data = ([], False)"
| "merge_parts ((part_key, collected) # rest) page_data =
     (case merge_part collected (page_data part_key) of
        (collected', True) \<Rightarrow> ((part_key, collected') # rest, True)
      | (collected', False) \<Rightarrow>
          (case merge_parts rest page_data of
             (rest', raised) \<Rightarrow> ((part_key, collected') # rest', raised)))"

definition k3_part_keys :: "string list" where
  "k3_part_keys =
     [''part_i_other_international'', ''part_ii_foreign_tax_credit'', ''part_iii_form_1116_1118'',
      ''part_iv_section_250'', ''part_v_distributions'', ''part_vi_inclusions'',
      ''part_vii_form_8621'', ''part_viii_foreign_corp_income'', ''part_ix_form_8991_beat'',
      ''part_x_tax_liability'', ''part_xi_section_871m'', ''part_xii_eci'',
      ''part_xiii_deemed_sale'']"

text \<open>The object of one page, and a partner record inside it.\<close>

record k3_partner =
  pr_partner_name :: "json option"
  pr_parts :: "string \<rightharpoonup> part_item list"

record k3_data =
  d_document_metadata :: "json option"
  d_form_type :: "json option"
  d_tax_year :: "json option"
  d_partnership_name :: "json option"
  d_partnership_ein :: "json option"
  d_partner_records :: "k3_partner list option"
  d_partner_name :: "json option"
  d_parts :: "string \<rightharpoonup> part_item list"

text \<open>What \<^verbatim>\<open>self.extractor.extract(img, model)\<close> returns: a list (whose first element
  is an object or null), an object with an \<open>error\<close> key, another object, or something
  else. The extractor may also raise.\<close>

datatype raw_result =
    RawList "k3_data option list"
  | RawErrorDict json
  | RawDict k3_data
  | RawOther json

record batch_state =
  raw_results :: "(nat \<times> raw_result) list"
  document_metadata :: "json option"
  partner_name :: json
  all_part_data :: "(string \<times> part_item list) list"

definition initial_batch_state :: batch_state where
  "initial_batch_state =
     \<lparr>raw_results = [], document_metadata = None, partner_name = JStr '''',
      all_part_data = map (\<lambda>k. (k, [])) k3_part_keys\<rparr>"

definition get_or :: "json option \<Rightarrow> json \<Rightarrow> json" where
  "get_or v dflt = (case v of None \<Rightarrow> dflt | Some x \<Rightarrow> x)"

text \<open>The metadata of a page, taken when none has been found yet; a \<open>document_metadata\<close>
  that is null leaves the variable \<open>None\<close>.\<close>

definition page_document_metadata :: "k3_data \<Rightarrow> json option" where
  "page_document_metadata data =
     (case d_document_metadata data of
        Some v \<Rightarrow> (if v = JNull then None else Some v)
      | None \<Rightarrow>
          if d_partnership_name data \<noteq> None \<or> d_tax_year data \<noteq> None
          then Some (JObj [(''form_type'', get_or (d_form_type data) (JStr ''Schedule K-3 (Form 1065)'')),
                           (''tax_year'', get_or (d_tax_year data) (JStr ''2024'')),
                           (''partnership_name'', get_or (d_partnership_name data) (JStr '''')),
                           (''partnership_ein'', get_or (d_partnership_ein data) (JStr ''''))])
          else None)"

text \<open>\<^verbatim>\<open>"partner_records" in data and data["partner_records"]\<close>: the first partner record,
  when there is one.\<close>

definition first_partner :: "k3_data \<Rightarrow> k3_partner option" where
  "first_partner data =
     (case d_partner_records data of
        Some (p # ps) \<Rightarrow> Some p
      | _ \<Rightarrow> None)"

definition page_partner_name :: "k3_data \<Rightarrow> json \<Rightarrow> json" where
  "page_partner_name data current =
     (case first_partner data of
        Some p \<Rightarrow> get_or (pr_partner_name p) (JStr '''')
      | None \<Rightarrow> (case d_partner_name data of Some v \<Rightarrow> v | None \<Rightarrow> current))"

text \<open>The body of the \<^verbatim>\<open>try\<close> block once \<open>data\<close> is an object.\<close>

definition process_data :: "k3_data \<Rightarrow> batch_state \<Rightarrow> batch_state" where
  "process_data data st =
     (let st1 = (if document_metadata st = None
                 then st\<lparr>document_metadata := page_document_metadata data\<rparr> else st);
          st2 = (if \<not> py_truthy (partner_name st1)
                 then st1\<lparr>partner_name := page_partner_name data (partner_name st1)\<rparr> else st1);
          page_data = (case first_partner data of Some p \<Rightarrow> pr_parts p | None \<Rightarrow> d_parts data)
      in st2\<lparr>all_part_data := fst (merge_parts (all_part_data st2) page_data)\<rparr>)"

text \<open>One iteration of \<^verbatim>\<open>for page_num, img in page_images\<close>: \<open>extract img\<close> is
  \<open>None\<close> when the extractor raises (nothing is recorded then).\<close>

definition process_page :: "('img \<Rightarrow> raw_result option) \<Rightarrow> batch_state \<Rightarrow> nat \<times> 'img \<Rightarrow> batch_state" where
  "process_page extract st page =
     (case extract (snd page) of
        None \<Rightarrow> st
      | Some result \<Rightarrow>
          (let st1 = st\<lparr>raw_results := raw_results st @ [(fst page, result)]\<rparr>
           in case result of
                RawList (Some data # rest) \<Rightarrow> process_data data st1
              | RawList _ \<Rightarrow> st1
              | RawErrorDict e \<Rightarrow> st1
              | RawDict data \<Rightarrow> process_data data st1
              | RawOther v \<Rightarrow> st1))"

text \<open>The value \<^verbatim>\<open>batch_extract\<close> returns: a list with this one object. The raw results
  are recorded as returned (in the source the collected items are shared with them, so a
  later update of a value shows there too).\<close>

record k3_partner_record =
  out_partner_name :: json
  out_page_reference :: string
  out_parts :: "(string \<times> part_item list) list"

record k3_result =
  out_document_metadata :: json
  out_partner_records :: "k3_partner_record list"
  out_debug_raw_results :: "(nat \<times> raw_result) list"
  out_pages_extracted :: "nat list"

definition default_document_metadata :: json where
  "default_document_metadata =
     JObj [(''form_type'', JStr ''Schedule K-3 (Form 1065)''), (''tax_year'', JStr ''2024''),
           (''partnership_name'', JStr ''''), (''partnership_ein'', JStr '''')]"

definition batch_extract :: "('img \<Rightarrow> raw_result option) \<Rightarrow> (nat \<times> 'img) list \<Rightarrow> k3_result" where
  "batch_extract extract page_images =
     (let first_page = (if page_images \<noteq> [] then fst (hd page_images) else 1);
          last_page = (if page_images \<noteq> [] then fst (last page_images) else 1);
          st = foldl (process_page extract) initial_batch_state page_images;
          pages = str_of_nat first_page @ ''-'' @ str_of_nat last_page
      in \<lparr>out_document_metadata =
             (case document_metadata st of None \<Rightarrow> default_document_metadata | Some m \<Rightarrow> m),
          out_partner_records =
             [\<lparr>out_partner_name =
                 (if py_truthy (partner_name st) then partner_name st
                  else JStr (''Partner (Pages '' @ pages @ '')'')),
               out_page_reference = pages,
               out_parts = all_part_data st\<rparr>],
          out_debug_raw_results = raw_results st,
          out_pages_extracted = map fst page_images\<rparr>)"

text \<open>\<^verbatim>\<open>has_error(result)\<close> of \<^verbatim>\<open>app.py\<close> is \<^verbatim>\<open>isinstance(data, dict) and "error" in data\<close>;
  the value of \<^verbatim>\<open>batch_extract\<close> is a list, for which it is false. The two outcomes a
  range can have in the application are kept apart by this type.\<close>

datatype range_outcome = ErrorObject string | Extracted k3_result

definition has_error :: "range_outcome \<Rightarrow> bool" where
  "has_error r = (case r of ErrorObject e \<Rightarrow> True | Extracted res \<Rightarrow> False)"

text \<open>The extraction of one selected range in \<^verbatim>\<open>app.py\<close>: the pages that could be
  rendered go to \<^verbatim>\<open>batch_extract\<close>; with no page image the result is an error object.\<close>

definition extract_k3_range :: "('img \<Rightarrow> raw_result option) \<Rightarrow> (nat \<times> 'img) list \<Rightarrow> range_outcome" where
  "extract_k3_range extract page_images =
     (if page_images \<noteq> [] then Extracted (batch_extract extract page_images)
      else ErrorObject ''Failed to convert K-3 pages'')"

text \<open>The successive values one part key has on the pages of a range, merged from the
  empty list as \<^verbatim>\<open>batch_extract\<close> does.\<close>

definition merge_pages :: "part_item list list \<Rightarrow> part_item list" where
  "merge_pages pages = foldl (\<lambda>collected part_items. fst (merge_part collected (Some part_items))) [] pages"

text \<open>The values a list of items holds for a code, in order; for the pages, only the first
  data entry of an item is read.\<close>

definition first_entries :: "part_item list \<Rightarrow> data_entry list" where
  "first_entries items = concat (map (\<lambda>item. case item of Some (d # ds) \<Rightarrow> [d] | _ \<Rightarrow> []) items)"

definition all_entries :: "part_item list \<Rightarrow> data_entry list" where
  "all_entries items = concat (map (\<lambda>item. case item of Some ds \<Rightarrow> ds | None \<Rightarrow> []) items)"

definition values_for :: "json \<Rightarrow> data_entry list \<Rightarrow> json list" where
  "values_for c entries = map value (filter (\<lambda>e. py_eq (code e) c) entries)"

text \<open>The canonical shape of an item: at most one data entry, with a code that can be
  hashed.\<close>

definition canonical_item :: "part_item \<Rightarrow> bool" where
  "canonical_item item =
     (case item of None \<Rightarrow> True | Some ds \<Rightarrow> length ds \<le> 1 \<and> list_all (\<lambda>d. hashable (code d)) ds)"

definition single :: "string \<Rightarrow> json \<Rightarrow> part_item" where
  "single c v = Some [\<lparr>code = JStr c, label = JNull, value = v\<rparr>]"

text \<open>
  The rule of the claim, on the values seen for one code in page order: nothing when the
  code was never seen, else the first value that is set, or the first value when none is.
\<close>

definition first_non_empty_wins :: "json list \<Rightarrow> json list" where
  "first_non_empty_wins seen =
     (case seen of
        [] \<Rightarrow> []
      | v # vs \<Rightarrow> [case find value_is_set (v # vs) of Some w \<Rightarrow> w | None \<Rightarrow> v])"

text \<open>What Python equality compares: the number a value stands for, or the value itself.\<close>

definition eq_key :: "json \<Rightarrow> rat option \<times> json" where
  "eq_key a = (num_value a, if num_value a = None then a else JNull)"

section \<open>Substring test\<close>

text \<open>\<open>str_in\<close> is the substring relation of Python's \<^verbatim>\<open>in\<close> on strings.\<close>

lemma str_in_iff: "str_in p t \<longleftrightarrow> (\<exists>a b. t = a @ p @ b)"
proof (induction t)
  case Nil
  then show ?case by auto
next
  case (Cons c cs)
  show ?case
  proof
    assume "str_in p (c # cs)"
    then consider "prefix p (c # cs)" | "str_in p cs" by auto
    then show "\<exists>a b. c # cs = a @ p @ b"
    proof cases
      case 1
      then obtain b where "c # cs = p @ b" by (auto simp: prefix_def)
      then have "c # cs = [] @ p @ b" by simp
      then show ?thesis by blast
    next
      case 2
      with Cons obtain a b where "cs = a @ p @ b" by blast
      then have "c # cs = (c # a) @ p @ b" by simp
      then show ?thesis by blast
    qed
  next
    assume "\<exists>a b. c # cs = a @ p @ b"
    then obtain a b where ab: "c # cs = a @ p @ b" by blast
    show "str_in p (c # cs)"
    proof (cases a)
      case Nil
      with ab have "prefix p (c # cs)" by (simp add: prefix_def)
      then show ?thesis by simp
    next
      case (Cons a1 as)
      with ab have "cs = as @ p @ b" by simp
      with Cons.IH have "str_in p cs" by blast
      then show ?thesis by simp
    qed
  qed
qed

section \<open>Range grouping\<close>

lemma pages_of_ranges_append:
  "pages_of_ranges (xs @ ys) = pages_of_ranges xs @ pages_of_ranges ys"
  by (simp add: pages_of_ranges_def)

lemma group_loop_pages:
  "s \<le> e \<Longrightarrow> pages_of_ranges (group_loop s e ps acc) = pages_of_ranges acc @ [s ..< e + 1] @ ps"
proof (induction ps arbitrary: s e acc)
  case Nil
  then show ?case by (simp add: pages_of_ranges_def range_pages_def)
next
  case (Cons p ps)
  show ?case
  proof (cases "p = e + 1")
    case True
    with Cons.prems have "s \<le> p" by simp
    from Cons.IH[OF this, of acc] True Cons.prems show ?thesis
      by (simp add: upt_Suc_append)
  next
    case False
    have "p \<le> p" by simp
    from Cons.IH[OF this, of "acc @ [(s, e)]"] False show ?thesis
      by (simp add: pages_of_ranges_def range_pages_def)
  qed
qed

lemma group_loop_bounds:
  "s \<le> e \<Longrightarrow> \<forall>r \<in> set acc. fst r \<le> snd r \<Longrightarrow> \<forall>r \<in> set (group_loop s e ps acc). fst r \<le> snd r"
proof (induction ps arbitrary: s e acc)
  case Nil
  then show ?case by auto
next
  case (Cons p ps)
  show ?case
  proof (cases "p = e + 1")
    case True
    with Cons.prems have "s \<le> p" by simp
    from Cons.IH[OF this Cons.prems(2)] True show ?thesis by simp
  next
    case False
    have a: "\<forall>r \<in> set (acc @ [(s, e)]). fst r \<le> snd r" using Cons.prems by auto
    from Cons.IH[OF le_refl a] False show ?thesis by simp
  qed
qed

lemma group_loop_gaps:
  "s \<le> e \<Longrightarrow> sorted_wrt (<) (e # ps) \<Longrightarrow> sorted_wrt gap_before acc
     \<Longrightarrow> \<forall>r \<in> set acc. snd r + 1 < s
     \<Longrightarrow> sorted_wrt gap_before (group_loop s e ps acc)"
proof (induction ps arbitrary: s e acc)
  case Nil
  have "\<forall>r \<in> set acc. gap_before r (s, e)"
    using Nil.prems(4) by (simp add: gap_before_def)
  with Nil.prems(3) show ?case by (simp add: sorted_wrt_append)
next
  case (Cons p ps)
  from Cons.prems(2) have ep: "e < p" and sp: "sorted_wrt (<) (p # ps)" by auto
  show ?case
  proof (cases "p = e + 1")
    case True
    with Cons.prems have "s \<le> p" by simp
    from Cons.IH[OF this sp Cons.prems(3) Cons.prems(4)] True show ?thesis by simp
  next
    case False
    with ep have gap: "e + 1 < p" by simp
    have "\<forall>r \<in> set acc. gap_before r (s, e)"
      using Cons.prems(4) by (simp add: gap_before_def)
    with Cons.prems(3) have a: "sorted_wrt gap_before (acc @ [(s, e)])"
      by (simp add: sorted_wrt_append)
    have b: "\<forall>r \<in> set (acc @ [(s, e)]). snd r + 1 < p"
      using Cons.prems(1,4) gap by auto
    from Cons.IH[OF le_refl sp a b] False show ?thesis by simp
  qed
qed

lemma pages_of_group_ranges: "pages_of_ranges (group_ranges pages) = pages"
proof (cases pages)
  case Nil
  then show ?thesis by (simp add: group_ranges_def pages_of_ranges_def)
next
  case (Cons p ps)
  then show ?thesis
    using group_loop_pages[of p p ps "[]"] by (simp add: group_ranges_def pages_of_ranges_def)
qed

text \<open>
  Claim C3. For a strictly increasing list of detected page numbers, range detection returns
  the maximal contiguous runs: the ranges, expanded in order, are exactly the input pages
  (so every range is a run of consecutive pages and nothing is lost or invented), every range
  has start at most end, and each range is separated from the next by a gap (the next start
  is beyond the previous end plus one), hence the ranges do not overlap and are in document
  order. Pages 5, 6, 7, 9 give the ranges (5,7) and (9,9).
\<close>

theorem group_ranges_maximal_runs:
  assumes "sorted_wrt (<) pages"
  shows "pages_of_ranges (group_ranges pages) = pages
       \<and> (\<forall>r \<in> set (group_ranges pages). fst r \<le> snd r)
       \<and> sorted_wrt gap_before (group_ranges pages)
       \<and> group_ranges [5, 6, 7, 9] = [(5, 7), (9, 9)]"
proof (cases pages)
  case Nil
  then show ?thesis by (simp add: group_ranges_def pages_of_ranges_def)
next
  case (Cons p ps)
  have 1: "pages_of_ranges (group_ranges pages) = pages"
    by (rule pages_of_group_ranges)
  have 2: "\<forall>r \<in> set (group_ranges pages). fst r \<le> snd r"
    using group_loop_bounds[of p p "[]" ps] Cons by (simp add: group_ranges_def)
  have 3: "sorted_wrt gap_before (group_ranges pages)"
    using group_loop_gaps[of p p ps "[]"] assms Cons by (simp add: group_ranges_def)
  have 4: "group_ranges [5, 6, 7, 9] = [(5, 7), (9, 9)]"
    by (simp add: group_ranges_def)
  from 1 2 3 4 show ?thesis by blast
qed

theorem group_ranges_maximal_runs_witness:
  "sorted_wrt (<) [2, 3, 4, 5 :: nat] \<and> group_ranges [2, 3, 4, 5] = [(2, 5)]
     \<and> pages_of_ranges (group_ranges [2, 3, 4, 5]) = [2, 3, 4, 5]
     \<and> sorted_wrt gap_before (group_ranges [2, 3, 4, 5])"
  using group_ranges_maximal_runs[of "[2, 3, 4, 5]"] by (simp add: group_ranges_def)

section \<open>Page scanning\<close>

lemma max_page_to_scan_le:
  "pct \<le> 100 \<Longrightarrow> max_page_to_scan n pct \<le> n"
proof -
  assume "pct \<le> 100"
  then have "n * pct \<le> n * 100" by simp
  then have "n * pct div 100 \<le> n * 100 div 100" by (rule div_le_mono)
  then show ?thesis by (simp add: max_page_to_scan_def)
qed

lemma max_page_to_scan_100: "max_page_to_scan n 100 = n"
  by (simp add: max_page_to_scan_def)

lemma scan_loop_filter:
  "\<forall>i \<in> set idxs. i < length doc \<Longrightarrow>
   scan_loop P doc idxs found = Some (found @ map Suc (filter (\<lambda>i. P (doc ! i)) idxs))"
  by (induction idxs arbitrary: found) auto

lemma scan_loop_sound:
  "scan_loop P doc idxs found = Some r \<Longrightarrow> p \<in> set r \<Longrightarrow>
   p \<in> set found \<or> (\<exists>i \<in> set idxs. p = i + 1 \<and> i < length doc \<and> P (doc ! i))"
proof (induction idxs arbitrary: found)
  case Nil
  then show ?case by simp
next
  case (Cons i idxs)
  from Cons.prems(1) have lt: "i < length doc" by (auto split: if_splits)
  show ?case
  proof (cases "P (doc ! i)")
    case True
    with lt Cons.prems(1) have "scan_loop P doc idxs (found @ [i + 1]) = Some r" by simp
    from Cons.IH[OF this Cons.prems(2)] True lt show ?thesis by auto
  next
    case False
    with lt Cons.prems(1) have "scan_loop P doc idxs found = Some r" by simp
    from Cons.IH[OF this Cons.prems(2)] show ?thesis by auto
  qed
qed

lemma k1_scan_loop_no_limit:
  "\<forall>i \<in> set idxs. i < length doc \<Longrightarrow>
   k1_scan_loop doc None idxs found = Some (found @ map Suc (filter (\<lambda>i. is_k1_page (doc ! i)) idxs))"
  by (induction idxs arbitrary: found) auto

lemma k1_scan_loop_sound:
  "k1_scan_loop doc m idxs found = Some r \<Longrightarrow> p \<in> set r \<Longrightarrow>
   p \<in> set found \<or> (\<exists>i \<in> set idxs. p = i + 1 \<and> i < length doc \<and> is_k1_page (doc ! i))"
proof (induction idxs arbitrary: found)
  case Nil
  then show ?case by simp
next
  case (Cons i idxs)
  from Cons.prems(1) have lt: "i < length doc" by (auto split: if_splits)
  show ?case
  proof (cases "is_k1_page (doc ! i)")
    case True
    show ?thesis
    proof (cases "\<exists>k. m = Some k \<and> k \<noteq> 0 \<and> k \<le> length (found @ [i + 1])")
      case True
      with \<open>is_k1_page (doc ! i)\<close> lt Cons.prems(1) have "r = found @ [i + 1]" by auto
      with Cons.prems(2) \<open>is_k1_page (doc ! i)\<close> lt show ?thesis by auto
    next
      case False
      with \<open>is_k1_page (doc ! i)\<close> lt Cons.prems(1)
      have "k1_scan_loop doc m idxs (found @ [i + 1]) = Some r"
        by (auto simp: Let_def split: option.splits if_splits)
      from Cons.IH[OF this Cons.prems(2)] \<open>is_k1_page (doc ! i)\<close> lt show ?thesis by auto
    qed
  next
    case False
    with lt Cons.prems(1) have "k1_scan_loop doc m idxs found = Some r" by simp
    from Cons.IH[OF this Cons.prems(2)] show ?thesis by auto
  qed
qed

lemma detect_k1_pages_sound:
  assumes "p \<in> set (detect_k1_pages doc pct m)"
  shows "1 \<le> p \<and> p \<le> max_page_to_scan (length doc) pct \<and> p \<le> length doc \<and> is_k1_page (doc ! (p - 1))"
proof (cases "k1_scan_loop doc m [0 ..< max_page_to_scan (length doc) pct] []")
  case None
  with assms show ?thesis by (simp add: detect_k1_pages_def)
next
  case (Some r)
  with assms have "p \<in> set r" by (simp add: detect_k1_pages_def)
  from k1_scan_loop_sound[OF Some this] show ?thesis by auto
qed

lemma detect_k1_pages_default_eq:
  "detect_k1_pages_default doc =
     map Suc (filter (\<lambda>i. is_k1_page (doc ! i)) [0 ..< max_page_to_scan (length doc) 85])"
proof -
  have "max_page_to_scan (length doc) 85 \<le> length doc" by (rule max_page_to_scan_le) simp
  then have "\<forall>i \<in> set [0 ..< max_page_to_scan (length doc) 85]. i < length doc" by auto
  from k1_scan_loop_no_limit[OF this, of "[]"] show ?thesis
    by (simp add: detect_k1_pages_default_def detect_k1_pages_def)
qed

lemma scan_all_pages:
  "scan_loop P doc [0 ..< max_page_to_scan (length doc) 100] [] =
     Some (map Suc (filter (\<lambda>i. P (doc ! i)) [0 ..< length doc]))"
proof -
  have "\<forall>i \<in> set [0 ..< length doc]. i < length doc" by auto
  from scan_loop_filter[OF this, of P "[]"] show ?thesis by (simp add: max_page_to_scan_100)
qed

lemma detect_k3_pages_100:
  "detect_k3_pages doc 100 = map Suc (filter (\<lambda>i. is_k3_page (doc ! i)) [0 ..< length doc])"
  by (simp add: detect_k3_pages_def detect_k3_page_ranges_def scan_all_pages pages_of_group_ranges)

lemma detect_8805_pages_100:
  "detect_8805_pages doc 100 = map Suc (filter (\<lambda>i. is_8805_page (doc ! i)) [0 ..< length doc])"
  by (simp add: detect_8805_pages_def detect_8805_page_ranges_def scan_all_pages pages_of_group_ranges)

lemma mem_map_Suc_filter_upt:
  "p \<in> set (map Suc (filter Q [0 ..< n])) \<longleftrightarrow> 1 \<le> p \<and> p \<le> n \<and> Q (p - 1)"
proof
  assume "p \<in> set (map Suc (filter Q [0 ..< n]))"
  then obtain i where "p = Suc i" "i < n" "Q i" by auto
  then show "1 \<le> p \<and> p \<le> n \<and> Q (p - 1)" by simp
next
  assume a: "1 \<le> p \<and> p \<le> n \<and> Q (p - 1)"
  then have "p - 1 < n" "Q (p - 1)" "p = Suc (p - 1)" by auto
  then have "p - 1 \<in> set (filter Q [0 ..< n])" by simp
  then have "Suc (p - 1) \<in> Suc ` set (filter Q [0 ..< n])" by (rule imageI)
  with \<open>p = Suc (p - 1)\<close> show "p \<in> set (map Suc (filter Q [0 ..< n]))" by simp
qed

text \<open>
  Claim C2. Page \<open>p\<close> is reported as a K-1 (Form 1065) page by the K-1 detector (default
  arguments) exactly when it lies in the scanned part of the document and its text contains
  "Schedule K-1", "(Form 1065)", "Part I" and "Information About the Partnership"; page \<open>p\<close>
  is reported as a K-3 page by the K-3 detector (scanning 100 percent) exactly when it is a
  page of the document whose text contains "Schedule K-3" and does not contain
  "Schedule K-1".
\<close>

theorem k1_k3_classification_exact:
  "(p \<in> set (detect_k1_pages_default doc) \<longleftrightarrow>
      1 \<le> p \<and> p \<le> max_page_to_scan (length doc) 85
        \<and> str_in ''Schedule K-1'' (doc ! (p - 1)) \<and> str_in ''(Form 1065)'' (doc ! (p - 1))
        \<and> str_in ''Part I'' (doc ! (p - 1))
        \<and> str_in ''Information About the Partnership'' (doc ! (p - 1)))
 \<and> (p \<in> set (detect_k3_pages doc 100) \<longleftrightarrow>
      1 \<le> p \<and> p \<le> length doc
        \<and> str_in ''Schedule K-3'' (doc ! (p - 1)) \<and> \<not> str_in ''Schedule K-1'' (doc ! (p - 1)))"
proof
  show "p \<in> set (detect_k1_pages_default doc) \<longleftrightarrow>
      1 \<le> p \<and> p \<le> max_page_to_scan (length doc) 85
        \<and> str_in ''Schedule K-1'' (doc ! (p - 1)) \<and> str_in ''(Form 1065)'' (doc ! (p - 1))
        \<and> str_in ''Part I'' (doc ! (p - 1))
        \<and> str_in ''Information About the Partnership'' (doc ! (p - 1))"
    unfolding detect_k1_pages_default_eq mem_map_Suc_filter_upt
    by (simp add: is_k1_page_def)
next
  show "p \<in> set (detect_k3_pages doc 100) \<longleftrightarrow>
      1 \<le> p \<and> p \<le> length doc
        \<and> str_in ''Schedule K-3'' (doc ! (p - 1)) \<and> \<not> str_in ''Schedule K-1'' (doc ! (p - 1))"
    unfolding detect_k3_pages_100 mem_map_Suc_filter_upt
    by (simp add: is_k3_page_def)
qed

lemma detect_8805_pages_sound:
  assumes "p \<in> set (detect_8805_pages doc pct)"
  shows "1 \<le> p \<and> p \<le> length doc \<and> is_8805_page (doc ! (p - 1))"
proof (cases "scan_loop is_8805_page doc [0 ..< max_page_to_scan (length doc) pct] []")
  case None
  with assms show ?thesis
    by (simp add: detect_8805_pages_def detect_8805_page_ranges_def pages_of_ranges_def)
next
  case (Some r)
  with assms have "p \<in> set r"
    by (simp add: detect_8805_pages_def detect_8805_page_ranges_def pages_of_group_ranges)
  from scan_loop_sound[OF Some this] show ?thesis by auto
qed

text \<open>
  Claim C4. A page that the 8805 detector reports (whatever the scan percentage) matches one
  of the 8805 signatures: "Form 8805", or "Foreign Partner's Information Statement", or
  "Section 1446" together with "Form 8805", or a copy marker ("Copy A" to "Copy D")
  together with "8805"; and it carries none of the detector's Form 8804 patterns
  (\<open>is_any_8804\<close>: "Schedule K-1" with "(Form 8804)", "Form 8804" with "Annual Return for
  Partnership Withholding Tax", "Form 8804" with "Schedule K-1"), no K-1 (Form 1065)
  signature ("Schedule K-1" with "(Form 1065)") and no "Schedule K-3". In particular a page
  with any of the three Form 8804 patterns is never reported as 8805.
\<close>

theorem form_8805_only_with_signature_and_exclusions:
  assumes "p \<in> set (detect_8805_pages doc pct)"
  shows "(str_in ''Form 8805'' (doc ! (p - 1))
          \<or> str_in ''Foreign Partner's Information Statement'' (doc ! (p - 1))
          \<or> (str_in ''Section 1446'' (doc ! (p - 1)) \<and> str_in ''Form 8805'' (doc ! (p - 1)))
          \<or> ((str_in ''Copy A'' (doc ! (p - 1)) \<or> str_in ''Copy B'' (doc ! (p - 1))
               \<or> str_in ''Copy C'' (doc ! (p - 1)) \<or> str_in ''Copy D'' (doc ! (p - 1)))
              \<and> str_in ''8805'' (doc ! (p - 1))))
       \<and> \<not> is_any_8804 (doc ! (p - 1))
       \<and> \<not> (str_in ''Schedule K-1'' (doc ! (p - 1)) \<and> str_in ''(Form 8804)'' (doc ! (p - 1)))
       \<and> \<not> (str_in ''Form 8804'' (doc ! (p - 1))
             \<and> str_in ''Annual Return for Partnership Withholding Tax'' (doc ! (p - 1)))
       \<and> \<not> (str_in ''Form 8804'' (doc ! (p - 1)) \<and> str_in ''Schedule K-1'' (doc ! (p - 1)))
       \<and> \<not> (str_in ''Schedule K-1'' (doc ! (p - 1)) \<and> str_in ''(Form 1065)'' (doc ! (p - 1)))
       \<and> \<not> str_in ''Schedule K-3'' (doc ! (p - 1))"
proof -
  from detect_8805_pages_sound[OF assms] have "is_8805_page (doc ! (p - 1))" by simp
  then show ?thesis
    unfolding is_8805_page_def has_8805_signature_def is_any_8804_def Let_def by blast
qed

section \<open>The detectors on concrete documents\<close>

lemma is_k1_page_k1_start_text: "is_k1_page k1_start_text"
  unfolding is_k1_page_def k1_start_text_def by simp

lemma is_k1_page_k3_text: "\<not> is_k1_page k3_text"
  unfolding is_k1_page_def k3_text_def by simp

lemma is_k3_page_k3_text: "is_k3_page k3_text"
  unfolding is_k3_page_def k3_text_def by simp

lemma is_k3_page_k1_start_text: "\<not> is_k3_page k1_start_text"
  unfolding is_k3_page_def k1_start_text_def by simp

lemma is_8805_page_copy_a: "is_8805_page copy_a_8805_text"
  unfolding is_8805_page_def has_8805_signature_def is_any_8804_def copy_a_8805_text_def by simp

theorem k1_k3_classification_exact_witness:
  "2 \<in> set (detect_k1_pages_default [k3_text, k1_start_text, k3_text])
   \<and> 1 \<notin> set (detect_k1_pages_default [k3_text, k1_start_text, k3_text])
   \<and> 3 \<in> set (detect_k3_pages [k3_text, k1_start_text, k3_text] 100)
   \<and> 2 \<notin> set (detect_k3_pages [k3_text, k1_start_text, k3_text] 100)"
proof -
  have k1: "str_in ''Schedule K-1'' k1_start_text \<and> str_in ''(Form 1065)'' k1_start_text
        \<and> str_in ''Part I'' k1_start_text \<and> str_in ''Information About the Partnership'' k1_start_text"
    using is_k1_page_k1_start_text by (simp add: is_k1_page_def)
  have k3: "str_in ''Schedule K-3'' k3_text \<and> \<not> str_in ''Schedule K-1'' k3_text"
    using is_k3_page_k3_text by (simp add: is_k3_page_def)
  have m: "max_page_to_scan (length [k3_text, k1_start_text, k3_text]) 85 = 2"
    by (simp add: max_page_to_scan_def)
  have a: "2 \<in> set (detect_k1_pages_default [k3_text, k1_start_text, k3_text])"
    using k1_k3_classification_exact[of 2 "[k3_text, k1_start_text, k3_text]"] k1 m by simp
  have b: "1 \<notin> set (detect_k1_pages_default [k3_text, k1_start_text, k3_text])"
    using k1_k3_classification_exact[of 1 "[k3_text, k1_start_text, k3_text]"] k3 by simp
  have c: "3 \<in> set (detect_k3_pages [k3_text, k1_start_text, k3_text] 100)"
    using k1_k3_classification_exact[of 3 "[k3_text, k1_start_text, k3_text]"] k3 by simp
  have d: "2 \<notin> set (detect_k3_pages [k3_text, k1_start_text, k3_text] 100)"
    using k1_k3_classification_exact[of 2 "[k3_text, k1_start_text, k3_text]"] k1 by simp
  from a b c d show ?thesis by blast
qed

theorem form_8805_only_with_signature_and_exclusions_witness:
  "2 \<in> set (detect_8805_pages [k3_text, copy_a_8805_text] 100)
   \<and> str_in ''Form 8805'' copy_a_8805_text \<and> \<not> is_any_8804 copy_a_8805_text
   \<and> \<not> str_in ''Schedule K-3'' copy_a_8805_text"
proof -
  have k3: "\<not> is_8805_page k3_text"
    unfolding is_8805_page_def k3_text_def by simp
  have mem: "2 \<in> set (detect_8805_pages [k3_text, copy_a_8805_text] 100)"
    unfolding detect_8805_pages_100 using k3 is_8805_page_copy_a by (simp add: upt_rec)
  from form_8805_only_with_signature_and_exclusions[OF mem] mem show ?thesis
    by (simp add: copy_a_8805_text_def)
qed

text \<open>
  A page with all four K-1 start markers that lies outside the scanned part is not reported:
  in a one-page document the default 85 percent scans floor(0.85) = 0 pages.
\<close>

theorem k1_start_page_outside_scan_counterexample:
  "str_in ''Schedule K-1'' k1_start_text \<and> str_in ''(Form 1065)'' k1_start_text
   \<and> str_in ''Part I'' k1_start_text \<and> str_in ''Information About the Partnership'' k1_start_text
   \<and> [k1_start_text] ! (1 - 1) = k1_start_text
   \<and> 1 \<notin> set (detect_k1_pages_default [k1_start_text])
   \<and> detect_k1_pages_default [k1_start_text] = []"
proof -
  have k1: "str_in ''Schedule K-1'' k1_start_text \<and> str_in ''(Form 1065)'' k1_start_text
        \<and> str_in ''Part I'' k1_start_text \<and> str_in ''Information About the Partnership'' k1_start_text"
    using is_k1_page_k1_start_text by (simp add: is_k1_page_def)
  have e: "detect_k1_pages_default [k1_start_text] = []"
    unfolding detect_k1_pages_default_eq by (simp add: max_page_to_scan_def)
  from k1 e show ?thesis by simp
qed

text \<open>
  A page that carries "Form 8804" (without "Schedule K-1", without "(Form 8804)" and without
  the title of the annual return) is still reported as 8805: the detector tests only its three
  Form 8804 patterns.
\<close>

theorem form_8805_with_form_8804_counterexample:
  "str_in ''Form 8804'' attach_8805_text \<and> \<not> str_in ''Schedule K-1'' attach_8805_text
   \<and> detect_8805_pages [attach_8805_text] 100 = [1]
   \<and> detect_8805_page_ranges_default [attach_8805_text] = [(1, 1)]"
proof -
  have a: "str_in ''Form 8804'' attach_8805_text" by (simp add: attach_8805_text_def)
  have b: "\<not> str_in ''Schedule K-1'' attach_8805_text" by (simp add: attach_8805_text_def)
  have p: "is_8805_page attach_8805_text"
    unfolding is_8805_page_def has_8805_signature_def is_any_8804_def attach_8805_text_def by simp
  have c: "detect_8805_pages [attach_8805_text] 100 = [1]"
    unfolding detect_8805_pages_100 using p by simp
  have d: "detect_8805_page_ranges_default [attach_8805_text] = [(1, 1)]"
    using p by (simp add: detect_8805_page_ranges_default_def detect_8805_page_ranges_def
        max_page_to_scan_def group_ranges_def)
  from a b c d show ?thesis by simp
qed

text \<open>
  Claim C10. With the default 85 percent the K-1 detector scans only the first
  floor(0.85 * page count) pages: every page number it returns (whatever
  \<^verbatim>\<open>max_k1_pages\<close>) is between 1 and that bound, so a K-1 start page beyond the bound
  is never returned; the K-3 and 8805 detectors with their default 100 percent scan every
  page, so each page passing their test is returned.
\<close>

theorem k1_scans_first_85_percent_k3_8805_all:
  "(\<forall>p \<in> set (detect_k1_pages doc 85 max_k1_pages). 1 \<le> p \<and> p \<le> length doc * 85 div 100)
 \<and> (\<forall>p. length doc * 85 div 100 < p \<longrightarrow> p \<notin> set (detect_k1_pages_default doc))
 \<and> max_page_to_scan (length doc) 100 = length doc
 \<and> (\<forall>i < length doc. is_k3_page (doc ! i) \<longrightarrow>
        i + 1 \<in> set (pages_of_ranges (detect_k3_page_ranges_default doc)))
 \<and> (\<forall>i < length doc. is_8805_page (doc ! i) \<longrightarrow>
        i + 1 \<in> set (pages_of_ranges (detect_8805_page_ranges_default doc)))"
proof -
  have a: "\<forall>p \<in> set (detect_k1_pages doc 85 max_k1_pages). 1 \<le> p \<and> p \<le> length doc * 85 div 100"
    using detect_k1_pages_sound[of _ doc 85 max_k1_pages] by (auto simp: max_page_to_scan_def)
  have b: "\<forall>p. length doc * 85 div 100 < p \<longrightarrow> p \<notin> set (detect_k1_pages_default doc)"
  proof (intro allI impI notI)
    fix p
    assume gt: "length doc * 85 div 100 < p" and "p \<in> set (detect_k1_pages_default doc)"
    then have "p \<in> set (detect_k1_pages doc 85 None)" by (simp add: detect_k1_pages_default_def)
    from detect_k1_pages_sound[OF this] have "p \<le> length doc * 85 div 100"
      by (simp add: max_page_to_scan_def)
    with gt show False by simp
  qed
  have c: "max_page_to_scan (length doc) 100 = length doc" by (rule max_page_to_scan_100)
  have d: "\<forall>i < length doc. is_k3_page (doc ! i) \<longrightarrow>
        i + 1 \<in> set (pages_of_ranges (detect_k3_page_ranges_default doc))"
    using detect_k3_pages_100[of doc]
    by (simp add: detect_k3_pages_def detect_k3_page_ranges_default_def)
  have e: "\<forall>i < length doc. is_8805_page (doc ! i) \<longrightarrow>
        i + 1 \<in> set (pages_of_ranges (detect_8805_page_ranges_default doc))"
    using detect_8805_pages_100[of doc]
    by (simp add: detect_8805_pages_def detect_8805_page_ranges_default_def)
  from a b c d e show ?thesis by blast
qed

theorem k1_scans_first_85_percent_k3_8805_all_witness:
  "length (replicate 7 k1_start_text) * 85 div 100 = 5
   \<and> is_k1_page (replicate 7 k1_start_text ! 5)
   \<and> detect_k1_pages_default (replicate 7 k1_start_text) = [1, 2, 3, 4, 5]
   \<and> 6 \<notin> set (detect_k1_pages_default (replicate 7 k1_start_text))
   \<and> 7 \<in> set (pages_of_ranges (detect_k3_page_ranges_default (replicate 7 k3_text)))
   \<and> 7 \<in> set (pages_of_ranges (detect_8805_page_ranges_default (replicate 7 copy_a_8805_text)))"
proof -
  have 1: "length (replicate 7 k1_start_text) * 85 div 100 = 5" by simp
  have 2: "is_k1_page (replicate 7 k1_start_text ! 5)" by (simp add: is_k1_page_k1_start_text)
  have 3: "detect_k1_pages_default (replicate 7 k1_start_text) = [1, 2, 3, 4, 5]"
    unfolding detect_k1_pages_default_eq
    by (simp add: max_page_to_scan_def upt_rec is_k1_page_k1_start_text)
  have 4: "is_k3_page (replicate 7 k3_text ! 6)" by (simp add: is_k3_page_k3_text)
  have 5: "is_8805_page (replicate 7 copy_a_8805_text ! 6)" by (simp add: is_8805_page_copy_a)
  from k1_scans_first_85_percent_k3_8805_all[of "replicate 7 k1_start_text" None] 1
  have 6: "6 \<notin> set (detect_k1_pages_default (replicate 7 k1_start_text))" by simp
  from k1_scans_first_85_percent_k3_8805_all[of "replicate 7 k3_text" None]
  have "\<forall>i < length (replicate 7 k3_text). is_k3_page (replicate 7 k3_text ! i) \<longrightarrow>
        i + 1 \<in> set (pages_of_ranges (detect_k3_page_ranges_default (replicate 7 k3_text)))"
    by blast
  then have "6 < length (replicate 7 k3_text) \<longrightarrow> is_k3_page (replicate 7 k3_text ! 6) \<longrightarrow>
        6 + 1 \<in> set (pages_of_ranges (detect_k3_page_ranges_default (replicate 7 k3_text)))"
    by blast
  with 4 have 7: "7 \<in> set (pages_of_ranges (detect_k3_page_ranges_default (replicate 7 k3_text)))"
    by simp
  from k1_scans_first_85_percent_k3_8805_all[of "replicate 7 copy_a_8805_text" None]
  have "\<forall>i < length (replicate 7 copy_a_8805_text). is_8805_page (replicate 7 copy_a_8805_text ! i) \<longrightarrow>
        i + 1 \<in> set (pages_of_ranges (detect_8805_page_ranges_default (replicate 7 copy_a_8805_text)))"
    by blast
  then have "6 < length (replicate 7 copy_a_8805_text) \<longrightarrow> is_8805_page (replicate 7 copy_a_8805_text ! 6) \<longrightarrow>
        6 + 1 \<in> set (pages_of_ranges (detect_8805_page_ranges_default (replicate 7 copy_a_8805_text)))"
    by blast
  with 5 have 8: "7 \<in> set (pages_of_ranges (detect_8805_page_ranges_default (replicate 7 copy_a_8805_text)))"
    by simp
  from 1 2 3 6 7 8 show ?thesis by blast
qed


section \<open>Retry policy\<close>













section \<open>Batching\<close>

lemma concat_chunks_take:
  "concat (map (\<lambda>k. take n (drop (k * n) xs)) [0 ..< m]) = take (m * n) xs"
proof (induction m)
  case 0
  then show ?case by simp
next
  case (Suc m)
  have "take (Suc m * n) xs = take (m * n + n) xs" by (simp add: add.commute)
  also have "\<dots> = take (m * n) xs @ take n (drop (m * n) xs)" by (rule take_add)
  finally show ?case using Suc by simp
qed

lemma concat_chunk_pages: "concat (chunk_pages pages) = pages"
proof -
  have "length pages \<le> (length pages + 10 - 1) div 10 * 10"
    by arith
  then show ?thesis
    using concat_chunks_take[of 10 pages "(length pages + 10 - 1) div 10"]
    by (simp add: chunk_pages_def chunk_starts_def MAX_PAGES_PER_BATCH_def comp_def)
qed

lemma chunk_pages_lengths:
  assumes "chunk \<in> set (chunk_pages pages)"
  shows "1 \<le> length chunk \<and> length chunk \<le> 10"
proof -
  from assms obtain k where k: "k < (length pages + 10 - 1) div 10"
    and c: "chunk = take 10 (drop (k * 10) pages)"
    by (auto simp: chunk_pages_def chunk_starts_def MAX_PAGES_PER_BATCH_def)
  from k have "k * 10 < length pages" by arith
  with c show ?thesis by simp
qed

lemma length_chunk_pages: "length (chunk_pages pages) = (length pages + 9) div 10"
  by (simp add: chunk_pages_def chunk_starts_def MAX_PAGES_PER_BATCH_def)

lemma dict_append_mset:
  "mset (concat (map snd (dict_append k v d))) = mset (concat (map snd d)) + {#v#}"
  by (induction k v d rule: dict_append.induct) auto

lemma dict_append_typed:
  "\<forall>(t, ps) \<in> set d. \<forall>p \<in> set ps. key p = t \<Longrightarrow>
   \<forall>(t, ps) \<in> set (dict_append (key v) v d). \<forall>p \<in> set ps. key p = t"
  by (induction "key v" v d rule: dict_append.induct) auto

lemma foldl_dict_append:
  "\<forall>(t, ps) \<in> set d. \<forall>p \<in> set ps. key p = t \<Longrightarrow>
   mset (concat (map snd (foldl (\<lambda>d p. dict_append (key p) p d) d pages)))
       = mset (concat (map snd d)) + mset pages
   \<and> (\<forall>(t, ps) \<in> set (foldl (\<lambda>d p. dict_append (key p) p d) d pages). \<forall>p \<in> set ps. key p = t)"
proof (induction pages arbitrary: d)
  case Nil
  then show ?case by simp
next
  case (Cons p pages)
  from dict_append_typed[OF Cons.prems, of p]
  have t: "\<forall>(t, ps) \<in> set (dict_append (key p) p d). \<forall>p \<in> set ps. key p = t" .
  from Cons.IH[OF t] show ?case by (simp add: dict_append_mset)
qed

lemma pages_by_type_mset:
  "mset (concat (map snd (pages_by_type request_pages))) = mset request_pages"
  using foldl_dict_append[of "[]" detected_type request_pages] by (simp add: pages_by_type_def)

lemma pages_by_type_typed:
  "(t, ps) \<in> set (pages_by_type request_pages) \<Longrightarrow> p \<in> set ps \<Longrightarrow> detected_type p = t"
  using foldl_dict_append[of "[]" detected_type request_pages] by (auto simp: pages_by_type_def)

lemma group_calls_filter:
  assumes "\<forall>(t, ps) \<in> set groups. \<forall>p \<in> set ps. detected_type p = t"
  shows "concat (concat (map (\<lambda>(form_type, pages). if supported form_type then chunk_pages pages else []) groups))
       = filter (\<lambda>p. supported (detected_type p)) (concat (map snd groups))"
  using assms
proof (induction groups)
  case Nil
  then show ?case by simp
next
  case (Cons g groups)
  obtain t ps where g: "g = (t, ps)" by (cases g)
  with Cons.prems have all: "\<forall>p \<in> set ps. detected_type p = t" by simp
  have "concat (if supported t then chunk_pages ps else []) = filter (\<lambda>p. supported (detected_type p)) ps"
  proof (cases "supported t")
    case True
    with all have "filter (\<lambda>p. supported (detected_type p)) ps = ps" by (simp add: filter_id_conv)
    with True show ?thesis by (simp add: concat_chunk_pages)
  next
    case False
    with all have "filter (\<lambda>p. supported (detected_type p)) ps = []" by (simp add: filter_empty_conv)
    with False show ?thesis by simp
  qed
  moreover from Cons.prems have "\<forall>(t, ps) \<in> set groups. \<forall>p \<in> set ps. detected_type p = t" by simp
  ultimately show ?case using Cons.IH g by simp
qed

text \<open>
  Claim C9. Every backend call that a batch extraction request plans holds between 1 and
  10 page images; the chunks of a page set, concatenated in call order, are exactly the
  page set (so a set of more than 10 pages is cut into consecutive calls of at most 10
  pages, \<open>ceil(n / 10)\<close> of them, losing and repeating nothing); and over the whole
  request the pages sent to the backend are exactly the requested pages whose form type has
  a prompt (all requested pages when every type is supported).
\<close>

theorem batch_calls_at_most_10_images:
  "(\<forall>chunk \<in> set (backend_calls supported request_pages). 1 \<le> length chunk \<and> length chunk \<le> 10)
 \<and> mset (concat (backend_calls supported request_pages))
       = mset (filter (\<lambda>p. supported (detected_type p)) request_pages)
 \<and> concat (chunk_pages pages) = pages
 \<and> (\<forall>chunk \<in> set (chunk_pages pages). 1 \<le> length chunk \<and> length chunk \<le> 10)
 \<and> length (chunk_pages pages) = (length pages + 9) div 10"
proof -
  have a: "\<forall>chunk \<in> set (backend_calls supported request_pages). 1 \<le> length chunk \<and> length chunk \<le> 10"
    by (auto simp: backend_calls_def split: if_splits dest: chunk_pages_lengths)
  have typed: "\<forall>(t, ps) \<in> set (pages_by_type request_pages). \<forall>p \<in> set ps. detected_type p = t"
    using pages_by_type_typed by blast
  have "mset (concat (backend_calls supported request_pages))
      = mset (filter (\<lambda>p. supported (detected_type p)) (concat (map snd (pages_by_type request_pages))))"
    unfolding backend_calls_def by (simp only: group_calls_filter[OF typed])
  also have "\<dots> = filter_mset (\<lambda>p. supported (detected_type p)) (mset request_pages)"
    by (simp only: mset_filter pages_by_type_mset)
  finally have b: "mset (concat (backend_calls supported request_pages))
       = mset (filter (\<lambda>p. supported (detected_type p)) request_pages)" by simp
  have c: "\<forall>chunk \<in> set (chunk_pages pages). 1 \<le> length chunk \<and> length chunk \<le> 10"
    using chunk_pages_lengths by blast
  from a b c concat_chunk_pages length_chunk_pages show ?thesis by blast
qed

theorem batch_calls_at_most_10_images_witness:
  "map (map page_number) (backend_calls (\<lambda>t. True) (map example_page [1, 2, 3, 4, 5, 6, 7, 8, 9, 10, 11, 12]))
     = [[1, 2, 3, 4, 5, 6, 7, 8, 9, 10], [11, 12]]
   \<and> length (chunk_pages (map example_page [1, 2, 3, 4, 5, 6, 7, 8, 9, 10, 11, 12])) = 2
   \<and> concat (chunk_pages (map example_page [1, 2, 3, 4, 5, 6, 7, 8, 9, 10, 11, 12]))
       = map example_page [1, 2, 3, 4, 5, 6, 7, 8, 9, 10, 11, 12]"
proof -
  have 1: "map (map page_number) (backend_calls (\<lambda>t. True) (map example_page [1, 2, 3, 4, 5, 6, 7, 8, 9, 10, 11, 12]))
     = [[1, 2, 3, 4, 5, 6, 7, 8, 9, 10], [11, 12]]"
    by (simp add: backend_calls_def pages_by_type_def example_page_def chunk_pages_def
                  chunk_starts_def MAX_PAGES_PER_BATCH_def upt_rec)
  from batch_calls_at_most_10_images[of "\<lambda>t. True" "[]" "map example_page [1, 2, 3, 4, 5, 6, 7, 8, 9, 10, 11, 12]"]
  have "length (chunk_pages (map example_page [1, 2, 3, 4, 5, 6, 7, 8, 9, 10, 11, 12])) = 2
      \<and> concat (chunk_pages (map example_page [1, 2, 3, 4, 5, 6, 7, 8, 9, 10, 11, 12]))
       = map example_page [1, 2, 3, 4, 5, 6, 7, 8, 9, 10, 11, 12]"
    by simp
  with 1 show ?thesis by blast
qed

section \<open>Cleaning of numbers and checkboxes\<close>




lemma clean_text_result_free:
  "CHR ''$'' \<notin> set (k1_clean_text s) \<and> CHR '','' \<notin> set (k1_clean_text s)
   \<and> CHR ''('' \<notin> set (k1_clean_text s) \<and> CHR '')'' \<notin> set (k1_clean_text s)
   \<and> CHR ''$'' \<notin> set (w2_clean_text s) \<and> CHR '','' \<notin> set (w2_clean_text s)"
proof -
  have sub: "\<And>t. set (strip t) \<subseteq> set t"
  proof -
    fix t
    have "set (strip t) = set (dropWhile is_space (rev (dropWhile is_space t)))"
      by (simp add: strip_def)
    also have "\<dots> \<subseteq> set (rev (dropWhile is_space t))" by (rule set_dropWhileD[THEN subsetI]) 
    also have "\<dots> \<subseteq> set t" using set_dropWhileD by fastforce
    finally show "set (strip t) \<subseteq> set t" .
  qed
  have k: "set (k1_clean_text s) \<subseteq> set s \<union> {CHR ''-''} - {CHR ''$'', CHR '','', CHR ''('', CHR '')''}"
    unfolding k1_clean_text_def
    by (rule subset_trans[OF sub]) (auto simp: remove_char_def replace_char_def)
  have w: "set (w2_clean_text s) \<subseteq> set s - {CHR ''$'', CHR '',''}"
    unfolding w2_clean_text_def
    by (rule subset_trans[OF sub]) (auto simp: remove_char_def)
  from k w show ?thesis by auto
qed





















section \<open>W-2 schema completeness\<close>













end
